theory Spec2Isabelle
  imports Complex_Main
begin

section \<open>Vandri AI agent backend: the query-resolution pipeline of \<open>main.py\<close>\<close>

text \<open>
  \<open>main.py\<close> is an orchestration of three external services behind two HTTP
  endpoints: a Redis cache, the Groq completion API and a PostgreSQL table
  \<open>interactions\<close>. The module-level handles \<open>redis_client\<close>, \<open>groq_client\<close> and
  \<open>database\<close> are the fields of a record \<open>world\<close> that every handler takes and
  returns. Every call that can raise returns a sum, \<open>Inl\<close> the exception, and the
  \<open>try/except\<close> of each handler is a case distinction on it.

  \<open>logger\<close> calls write to the operational log only and are left out. The offline
  script \<open>train.py\<close> has no function and no link to the service.
\<close>

subsection \<open>Data models and exceptions\<close>

record UserQuery =
  user_id :: int
  "text" :: string

record AgentResponse =
  response :: string
  source :: string
  latency_seconds :: real

text \<open>
  An exception is either the \<open>HTTPException\<close> of FastAPI (status code and detail) or
  an exception of one of the three client libraries, with its message. The handlers
  build \<open>detail=str(e)\<close> from a caught exception \<open>e\<close>; the text of \<open>str(e)\<close> depends
  on the exception class, so the detail keeps the exception itself (\<open>Str e\<close>).
\<close>

datatype exn =
    HTTPException nat detail
  | RedisError string
  | GroqError string
  | DatabaseError string
and detail =
    Text string
  | Str exn

subsection \<open>The cache: \<open>redis_client\<close>\<close>

text \<open>
  The Redis server holds, for a key, a value and the expiry in seconds it was stored
  with (\<open>decode_responses=True\<close>: values are strings). \<open>get_fault\<close> and
  \<open>setex_fault\<close> say whether the server answers a read or a write: \<open>Some e\<close> makes
  the client method raise \<open>e\<close> (connection refused, read-only replica, ...).
\<close>

record redis =
  entries :: "string \<rightharpoonup> string \<times> nat"
  get_fault :: "exn option"
  setex_fault :: "exn option"

definition redis_get :: "redis \<Rightarrow> string \<Rightarrow> exn + string option" where
  "redis_get r name =
     (case get_fault r of
        Some e \<Rightarrow> Inl e
      | None \<Rightarrow> Inr (map_option fst (entries r name)))"

definition redis_setex :: "redis \<Rightarrow> string \<Rightarrow> nat \<Rightarrow> string \<Rightarrow> exn + redis" where
  "redis_setex r name time v =
     (case setex_fault r of
        Some e \<Rightarrow> Inl e
      | None \<Rightarrow> Inr (r\<lparr>entries := (entries r)(name \<mapsto> (v, time))\<rparr>))"

subsection \<open>The inference provider: \<open>groq_client\<close>\<close>

record message =
  role :: string
  content :: string

record completion_request =
  messages :: "message list"
  model :: string

text \<open>
  \<open>create\<close> is \<open>groq_client.chat.completions.create\<close> followed by
  \<open>.choices[0].message.content\<close>: the text of the first choice, or the exception
  raised on the way (a failed API call, or a completion without a first choice).
\<close>

record groq =
  create :: "completion_request \<Rightarrow> exn + string"

subsection \<open>The interaction log: \<open>database\<close>\<close>

text \<open>
  One row of the table \<open>interactions\<close>. The columns \<open>id\<close>, \<open>user_id\<close> and \<open>source\<close>
  are named \<open>row_id\<close>, \<open>row_user_id\<close> and \<open>row_source\<close> here. \<open>id\<close> is \<open>SERIAL\<close>: the
  table carries the next value of its sequence. \<open>timestamp\<close> is \<open>DEFAULT NOW()\<close>:
  the clock of the database server, \<open>now\<close>.
\<close>

record interaction =
  row_id :: nat
  row_user_id :: int
  input_text :: string
  ai_response :: string
  row_source :: string
  timestamp :: int

record table =
  rows :: "interaction list"
  next_id :: nat

record database =
  reachable :: bool
  is_connected :: bool
  interactions :: "table option"
  now :: int

definition connect :: "database \<Rightarrow> exn + database" where
  "connect db =
     (if is_connected db then Inr db
      else if reachable db then Inr (db\<lparr>is_connected := True\<rparr>)
      else Inl (DatabaseError ''connection refused''))"

text \<open>A statement runs only on an open connection to a server that answers.\<close>

definition execute_guard :: "database \<Rightarrow> exn option" where
  "execute_guard db =
     (if \<not> is_connected db then Some (DatabaseError ''not connected'')
      else if \<not> reachable db then Some (DatabaseError ''connection lost'')
      else None)"

text \<open>\<open>CREATE TABLE IF NOT EXISTS interactions (...)\<close>\<close>

definition create_table_if_not_exists :: "database \<Rightarrow> exn + database" where
  "create_table_if_not_exists db =
     (case execute_guard db of
        Some e \<Rightarrow> Inl e
      | None \<Rightarrow>
          (case interactions db of
             None \<Rightarrow> Inr (db\<lparr>interactions := Some \<lparr>rows = [], next_id = 1\<rparr>\<rparr>)
           | Some t \<Rightarrow> Inr db))"

text \<open>
  \<open>INSERT INTO interactions(user_id, input_text, ai_response, source)
  VALUES (:uid, :inp, :resp, :src)\<close>
\<close>

text \<open>
  The values of a row are checked against the column types of the table
  (\<open>main.py\<close>, lines 74 to 81) when the statement runs, not by the handler:
  \<open>UserQuery.user_id\<close> is an unbounded Python \<open>int\<close> while the column \<open>user_id\<close> is
  \<open>INTEGER\<close>, four bytes, so a value outside \<open>-2147483648 .. 2147483647\<close> makes the
  statement raise; a \<open>TEXT\<close> or \<open>VARCHAR\<close> value cannot contain the character NUL;
  and a value longer than the 20 characters of \<open>source VARCHAR(20)\<close> raises unless
  all the characters beyond the 20th are spaces, which are cut off.
\<close>

definition int4 :: "int \<Rightarrow> bool" where
  "int4 n \<longleftrightarrow> - 2147483648 \<le> n \<and> n \<le> 2147483647"

definition has_nul :: "string \<Rightarrow> bool" where
  "has_nul s \<longleftrightarrow> CHR 0x00 \<in> set s"

definition only_spaces :: "string \<Rightarrow> bool" where
  "only_spaces s \<longleftrightarrow> list_all (\<lambda>c. c = CHR '' '') s"

definition insert_values_guard :: "int \<Rightarrow> string \<Rightarrow> string \<Rightarrow> string \<Rightarrow> exn option" where
  "insert_values_guard uid inp resp src =
     (if \<not> int4 uid then Some (DatabaseError ''value out of int32 range'')
      else if has_nul inp \<or> has_nul resp \<or> has_nul src
        then Some (DatabaseError ''invalid byte sequence for encoding UTF8: 0x00'')
      else if \<not> only_spaces (drop 20 src)
        then Some (DatabaseError ''value too long for type character varying(20)'')
      else None)"

definition insert_interaction ::
  "database \<Rightarrow> int \<Rightarrow> string \<Rightarrow> string \<Rightarrow> string \<Rightarrow> exn + database" where
  "insert_interaction db uid inp resp src =
     (case execute_guard db of
        Some e \<Rightarrow> Inl e
      | None \<Rightarrow>
          (case interactions db of
             None \<Rightarrow> Inl (DatabaseError ''relation interactions does not exist'')
           | Some t \<Rightarrow>
               (case insert_values_guard uid inp resp src of
                  Some e \<Rightarrow> Inl e
                | None \<Rightarrow>
                    Inr (db\<lparr>interactions := Some
                      \<lparr>rows = rows t @
                         [\<lparr>row_id = next_id t, row_user_id = uid, input_text = inp,
                           ai_response = resp, row_source = take 20 src,
                           timestamp = now db\<rparr>],
                       next_id = Suc (next_id t)\<rparr>\<rparr>))))"

text \<open>\<open>SELECT * FROM interactions ORDER BY id DESC LIMIT 10\<close>\<close>

definition select_last_10 :: "database \<Rightarrow> exn + interaction list" where
  "select_last_10 db =
     (case execute_guard db of
        Some e \<Rightarrow> Inl e
      | None \<Rightarrow>
          (case interactions db of
             None \<Rightarrow> Inl (DatabaseError ''relation interactions does not exist'')
           | Some t \<Rightarrow> Inr (take 10 (rev (sort_key row_id (rows t))))))"

subsection \<open>The process state\<close>

text \<open>
  \<open>redis_client\<close> is \<open>None\<close> when \<open>redis.Redis.from_url\<close> raised, \<open>groq_client\<close> when
  the API key is missing. \<open>from_url\<close> builds the client without connecting: a server
  that cannot be reached leaves \<open>redis_client\<close> set, and shows as an exception of the
  first \<open>get\<close> (\<open>get_fault\<close>). \<open>inference_calls\<close> records every request sent to the
  inference provider, so that "invoked" can be counted. \<open>datetime.datetime.now()\<close>
  reads \<open>wall_clock\<close> (microseconds) at the position \<open>clock_reads\<close> and advances it.
\<close>

record world =
  redis_client :: "redis option"
  groq_client :: "groq option"
  database :: database
  inference_calls :: "completion_request list"
  wall_clock :: "nat \<Rightarrow> int"
  clock_reads :: nat

definition datetime_now :: "world \<Rightarrow> world \<times> int" where
  "datetime_now w = (w\<lparr>clock_reads := Suc (clock_reads w)\<rparr>, wall_clock w (clock_reads w))"

text \<open>\<open>(t1 - t0).total_seconds()\<close>\<close>

definition total_seconds :: "int \<Rightarrow> int \<Rightarrow> real" where
  "total_seconds t1 t0 = real_of_int (t1 - t0) / 1000000"

subsection \<open>Lifecycle: \<open>startup\<close>\<close>

text \<open>
  The whole body is inside \<open>try\<close>; the \<open>except\<close> branch logs at level critical and
  returns, so \<open>startup\<close> never raises. A connection opened before the failing
  statement stays open.
\<close>

definition startup :: "world \<Rightarrow> world" where
  "startup w =
     (case connect (database w) of
        Inl e \<Rightarrow> w
      | Inr db \<Rightarrow>
          (case create_table_if_not_exists db of
             Inl e \<Rightarrow> w\<lparr>database := db\<rparr>
           | Inr db' \<Rightarrow> w\<lparr>database := db'\<rparr>))"

subsection \<open>\<open>POST /chat\<close>: \<open>chat_endpoint\<close>\<close>

text \<open>
  Step 1, the cache layer. The result is the pair \<open>(source, response_text)\<close> after
  the step; both Python tests are truth tests, so a missing key and an empty cached
  string leave the initial values \<open>("unknown", "")\<close>.
\<close>

definition cache_layer :: "world \<Rightarrow> UserQuery \<Rightarrow> exn + string \<times> string" where
  "cache_layer w query =
     (case redis_client w of
        None \<Rightarrow> Inr (''unknown'', '''')
      | Some r \<Rightarrow>
          (case redis_get r (text query) of
             Inl e \<Rightarrow> Inl e
           | Inr cached_response \<Rightarrow>
               (case cached_response of
                  None \<Rightarrow> Inr (''unknown'', '''')
                | Some c \<Rightarrow>
                    if c \<noteq> '''' then Inr (''cache (Redis)'', c)
                    else Inr (''unknown'', ''''))))"

definition completion_for :: "UserQuery \<Rightarrow> completion_request" where
  "completion_for query =
     \<lparr>messages =
        [\<lparr>role = ''system'',
          content = ''You are a helpful and concise AI assistant for Vandri.ai.''\<rparr>,
         \<lparr>role = ''user'', content = text query\<rparr>],
      model = ''llama-3.3-70b-versatile''\<rparr>"

text \<open>
  Step 2, the inference layer, entered when \<open>response_text\<close> is empty. The world is
  returned on every path: the request sent to the provider and the cache entry
  written stay, whatever happens afterwards.
\<close>

definition inference_layer ::
  "world \<Rightarrow> UserQuery \<Rightarrow> string \<times> string \<Rightarrow> world \<times> (exn + string \<times> string)" where
  "inference_layer w query sr =
     (if snd sr = '''' then
        (case groq_client w of
           None \<Rightarrow> (w, Inl (HTTPException 500 (Text ''LLM service not configured.'')))
         | Some g \<Rightarrow>
             (let w1 = w\<lparr>inference_calls := inference_calls w @ [completion_for query]\<rparr>
              in case create g (completion_for query) of
                   Inl e \<Rightarrow> (w1, Inl e)
                 | Inr response_text \<Rightarrow>
                     (case redis_client w1 of
                        None \<Rightarrow> (w1, Inr (''llm (Groq)'', response_text))
                      | Some r \<Rightarrow>
                          (case redis_setex r (text query) 3600 response_text of
                             Inl e \<Rightarrow> (w1, Inl e)
                           | Inr r' \<Rightarrow>
                               (w1\<lparr>redis_client := Some r'\<rparr>,
                                Inr (''llm (Groq)'', response_text))))))
      else (w, Inr sr))"

text \<open>Steps 1 and 2 together: where the response text comes from.\<close>

definition resolve :: "world \<Rightarrow> UserQuery \<Rightarrow> world \<times> (exn + string \<times> string)" where
  "resolve w query =
     (case cache_layer w query of
        Inl e \<Rightarrow> (w, Inl e)
      | Inr sr \<Rightarrow> inference_layer w query sr)"

text \<open>Step 3, the persistence layer.\<close>

definition persistence_layer ::
  "world \<Rightarrow> UserQuery \<Rightarrow> string \<times> string \<Rightarrow> exn + world" where
  "persistence_layer w query sr =
     (case insert_interaction (database w) (user_id query) (text query) (snd sr) (fst sr) of
        Inl e \<Rightarrow> Inl e
      | Inr db \<Rightarrow> Inr (w\<lparr>database := db\<rparr>))"

text \<open>
  The handler: the \<open>try\<close> block is the three steps and the construction of the
  response; \<open>except Exception as e\<close> turns every exception, the \<open>HTTPException\<close>
  of step 2 included, into \<open>HTTPException(status_code=500, detail=str(e))\<close>.
\<close>

definition chat_endpoint :: "world \<Rightarrow> UserQuery \<Rightarrow> world \<times> (exn + AgentResponse)" where
  "chat_endpoint w query =
     (let (w0, start_time) = datetime_now w
      in case resolve w0 query of
           (w1, Inl e) \<Rightarrow> (w1, Inl (HTTPException 500 (Str e)))
         | (w1, Inr sr) \<Rightarrow>
             (case persistence_layer w1 query sr of
                Inl e \<Rightarrow> (w1, Inl (HTTPException 500 (Str e)))
              | Inr w2 \<Rightarrow>
                  (let (w3, end_time) = datetime_now w2
                   in (w3, Inr \<lparr>response = snd sr, source = fst sr,
                               latency_seconds = total_seconds end_time start_time\<rparr>))))"

subsection \<open>\<open>GET /analytics\<close>: \<open>get_analytics\<close>\<close>

definition get_analytics :: "world \<Rightarrow> exn + interaction list" where
  "get_analytics w =
     (case select_last_10 (database w) of
        Inl e \<Rightarrow> Inl (HTTPException 500 (Str e))
      | Inr records \<Rightarrow> Inr records)"

subsection \<open>Concrete states used to evaluate the handlers\<close>

text \<open>
  The scenario of the specification: an inference provider that answers
  \<open>"Hello there"\<close>, the query \<open>{user_id: 1, text: "hi"}\<close>, a clock that advances one
  millisecond between two readings, and caches and databases in the states the
  handlers distinguish.
\<close>

definition clock_ms :: "nat \<Rightarrow> int" where
  "clock_ms n = 1000 * int n"

definition groq_hello :: groq where
  "groq_hello = \<lparr>create = (\<lambda>req. Inr ''Hello there'')\<rparr>"

definition redis_empty :: redis where
  "redis_empty = \<lparr>entries = Map.empty, get_fault = None, setex_fault = None\<rparr>"

definition redis_with :: "string \<Rightarrow> string \<Rightarrow> redis" where
  "redis_with k v = \<lparr>entries = [k \<mapsto> (v, 3600)], get_fault = None, setex_fault = None\<rparr>"

definition redis_down :: redis where
  "redis_down = \<lparr>entries = Map.empty,
     get_fault = Some (RedisError ''Connection refused''),
     setex_fault = Some (RedisError ''Connection refused'')\<rparr>"

definition redis_read_only :: redis where
  "redis_read_only = \<lparr>entries = Map.empty, get_fault = None,
     setex_fault = Some (RedisError ''READONLY'')\<rparr>"

definition db_ready :: database where
  "db_ready = \<lparr>reachable = True, is_connected = True,
     interactions = Some \<lparr>rows = [], next_id = 1\<rparr>, now = 0\<rparr>"

definition db_fresh :: database where
  "db_fresh = \<lparr>reachable = True, is_connected = False, interactions = None, now = 0\<rparr>"

definition db_no_table :: database where
  "db_no_table = \<lparr>reachable = True, is_connected = True, interactions = None, now = 0\<rparr>"

definition db_down :: database where
  "db_down = \<lparr>reachable = False, is_connected = False, interactions = None, now = 0\<rparr>"

definition row_numbered :: "nat \<Rightarrow> interaction" where
  "row_numbered n = \<lparr>row_id = n, row_user_id = 1, input_text = ''hi'',
     ai_response = ''Hello there'', row_source = ''cache (Redis)'', timestamp = 0\<rparr>"

definition db_twelve :: database where
  "db_twelve = \<lparr>reachable = True, is_connected = True,
     interactions = Some \<lparr>rows = map row_numbered [1, 2, 3, 4, 5, 6, 7, 8, 9, 10, 11, 12],
                          next_id = 13\<rparr>, now = 0\<rparr>"

definition world_with :: "redis option \<Rightarrow> groq option \<Rightarrow> database \<Rightarrow> world" where
  "world_with r g db = \<lparr>redis_client = r, groq_client = g, database = db,
     inference_calls = [], wall_clock = clock_ms, clock_reads = 0\<rparr>"

definition query_hi :: UserQuery where
  "query_hi = \<lparr>user_id = 1, text = ''hi''\<rparr>"

definition query_hi_2 :: UserQuery where
  "query_hi_2 = \<lparr>user_id = 2, text = ''hi''\<rparr>"

definition query_hi_big :: UserQuery where
  "query_hi_big = \<lparr>user_id = 2147483648, text = ''hi''\<rparr>"

section \<open>Properties of the handlers\<close>

lemmas ex_defs = clock_ms_def groq_hello_def redis_empty_def redis_with_def redis_down_def
  redis_read_only_def db_ready_def db_fresh_def db_no_table_def db_down_def world_with_def
  query_hi_def query_hi_2_def query_hi_big_def

lemmas insert_defs = insert_interaction_def insert_values_guard_def execute_guard_def
  int4_def has_nul_def only_spaces_def

lemmas chat_defs0 = chat_endpoint_def resolve_def cache_layer_def inference_layer_def
  persistence_layer_def redis_get_def redis_setex_def datetime_now_def

lemmas chat_defs = chat_defs0 insert_defs total_seconds_def completion_for_def

subsection \<open>The two steps that find the response text\<close>

text \<open>Steps 1 and 2 never touch the database, and never read the clock.\<close>

lemma resolve_database: "database (fst (resolve w query)) = database w"
  by (simp add: resolve_def cache_layer_def inference_layer_def redis_get_def redis_setex_def
      Let_def split: option.splits sum.splits)

lemma resolve_clock:
  "resolve (w\<lparr>clock_reads := n\<rparr>) query =
     (fst (resolve w query)\<lparr>clock_reads := n\<rparr>, snd (resolve w query))"
  by (simp add: resolve_def cache_layer_def inference_layer_def redis_get_def redis_setex_def
      Let_def split: option.splits sum.splits)


text \<open>A text they found comes with one of the two source strings.\<close>

lemma resolve_source:
  assumes "resolve w query = (w1, Inr sr)"
  shows "fst sr = ''cache (Redis)'' \<or> fst sr = ''llm (Groq)''"
  using assms
  by (auto simp: resolve_def cache_layer_def inference_layer_def redis_get_def redis_setex_def
      Let_def split: option.splits sum.splits if_splits)


text \<open>
  A miss of step 1, in terms of the state: there is no cache client,
  or the cache answers the lookup and holds nothing, or the empty string, under the
  query text.
\<close>

lemma cache_layer_miss:
  "cache_layer w query = Inr (''unknown'', '''') \<longleftrightarrow>
     (case redis_client w of
        None \<Rightarrow> True
      | Some r \<Rightarrow>
          get_fault r = None
          \<and> (case entries r (text query) of None \<Rightarrow> True | Some (v, ttl) \<Rightarrow> v = ''''))"
  by (auto simp: cache_layer_def redis_get_def split: option.splits)

subsection \<open>The insert\<close>

text \<open>
  An insert that succeeds found the table and appended one row to it; a source of at
  most 20 characters is stored as it is.
\<close>

lemma insert_row:
  assumes "insert_interaction db u i r s = Inr d" and "length s \<le> 20"
  shows "\<exists>t. interactions db = Some t
           \<and> d = db\<lparr>interactions := Some
                 \<lparr>rows = rows t @
                    [\<lparr>row_id = next_id t, row_user_id = u, input_text = i,
                      ai_response = r, row_source = s, timestamp = now db\<rparr>],
                  next_id = Suc (next_id t)\<rparr>\<rparr>"
  using assms
  by (auto simp: insert_interaction_def split: option.splits)

text \<open>It fails on a \<open>user_id\<close> that does not fit the column, whatever the database.\<close>

lemma insert_out_of_range:
  assumes "\<not> int4 u"
  shows "\<exists>e. insert_interaction db u i r s = Inl e"
  using assms
  by (simp add: insert_interaction_def insert_values_guard_def split: option.splits)

subsection \<open>The whole handler on its successful paths\<close>

lemma chat_hit:
  assumes "redis_client w = Some r" and "get_fault r = None"
    and "entries r (text query) = Some (v, ttl)" and "v \<noteq> ''''"
    and "insert_interaction (database w) (user_id query) (text query) v ''cache (Redis)'' = Inr d"
  shows "chat_endpoint w query =
           (w\<lparr>clock_reads := Suc (Suc (clock_reads w)), database := d\<rparr>,
            Inr \<lparr>response = v, source = ''cache (Redis)'',
                 latency_seconds = total_seconds (wall_clock w (Suc (clock_reads w)))
                                     (wall_clock w (clock_reads w))\<rparr>)"
  using assms by (simp add: chat_defs0)

lemma chat_miss:
  assumes "redis_client w = Some r" and "get_fault r = None" and "setex_fault r = None"
    and "entries r (text query) = None"
    and "groq_client w = Some g" and "create g (completion_for query) = Inr answer"
    and "insert_interaction (database w) (user_id query) (text query) answer ''llm (Groq)'' = Inr d"
  shows "chat_endpoint w query =
           (w\<lparr>inference_calls := inference_calls w @ [completion_for query],
              redis_client := Some (r\<lparr>entries := (entries r)(text query \<mapsto> (answer, 3600))\<rparr>),
              database := d,
              clock_reads := Suc (Suc (clock_reads w))\<rparr>,
            Inr \<lparr>response = answer, source = ''llm (Groq)'',
                 latency_seconds = total_seconds (wall_clock w (Suc (clock_reads w)))
                                     (wall_clock w (clock_reads w))\<rparr>)"
  using assms by (simp add: chat_defs0)

text \<open>
  A successful request went through all three steps: steps 1 and 2 gave a source and
  a text, the insert took them, and the response carries the same two values.
\<close>

lemma chat_success_steps:
  assumes "chat_endpoint w query = (w1, Inr env)"
  shows "\<exists>w' sr d.
           resolve (w\<lparr>clock_reads := Suc (clock_reads w)\<rparr>) query = (w', Inr sr)
           \<and> insert_interaction (database w') (user_id query) (text query) (snd sr) (fst sr)
               = Inr d
           \<and> w1 = w'\<lparr>database := d, clock_reads := Suc (clock_reads w')\<rparr>
           \<and> response env = snd sr \<and> source env = fst sr"
proof -
  let ?w0 = "w\<lparr>clock_reads := Suc (clock_reads w)\<rparr>"
  obtain w' res where w': "resolve ?w0 query = (w', res)"
    by (cases "resolve ?w0 query")
  show ?thesis
    using assms w'
    by (auto simp: chat_endpoint_def datetime_now_def persistence_layer_def split: sum.splits)
qed




subsection \<open>Ordering of the analytics rows\<close>

lemma desc_sorted: "sorted_wrt (\<lambda>a b. row_id b \<le> row_id a) (rev (sort_key row_id xs))"
proof -
  have "sorted (map row_id (sort_key row_id xs))"
    by (rule sorted_sort_key)
  then have "sorted_wrt (\<lambda>a b. row_id a \<le> row_id b) (sort_key row_id xs)"
    by (simp add: sorted_wrt_map)
  then show ?thesis
    by (simp add: sorted_wrt_rev)
qed

lemma take_newest:
  assumes "sorted_wrt (\<lambda>a b. row_id b \<le> row_id a) xs"
    and "x \<in> set (take n xs)" and "y \<in> set xs" and "y \<notin> set (take n xs)"
  shows "row_id y \<le> row_id x"
proof -
  have "sorted_wrt (\<lambda>a b. row_id b \<le> row_id a) (take n xs @ drop n xs)"
    using assms(1) by simp
  then have s: "\<forall>a \<in> set (take n xs). \<forall>b \<in> set (drop n xs). row_id b \<le> row_id a"
    unfolding sorted_wrt_append by blast
  have "set xs = set (take n xs) \<union> set (drop n xs)"
    by (metis append_take_drop_id set_append)
  then have "y \<in> set (drop n xs)"
    using assms(3,4) by blast
  then show ?thesis
    using s assms(2) by blast
qed

section \<open>The claims\<close>

subsection \<open>C1: a cache hit\<close>

text \<open>
  C1. For every query whose text is a key of the cache with a non-empty value, when
  the cache answers the lookup and the insert into the log succeeds, \<open>/chat\<close>
  returns a response whose text is the cached value verbatim and whose source is
  \<open>"cache (Redis)"\<close>, the string this code uses for the cache, and the inference
  provider is not invoked; the cache is left as it was.
\<close>

theorem c1_cache_hit:
  assumes "redis_client w = Some r" and "get_fault r = None"
    and "entries r (text query) = Some (v, ttl)" and "v \<noteq> ''''"
    and "insert_interaction (database w) (user_id query) (text query) v ''cache (Redis)'' = Inr d"
  shows "snd (chat_endpoint w query) =
           Inr \<lparr>response = v, source = ''cache (Redis)'',
                latency_seconds = total_seconds (wall_clock w (Suc (clock_reads w)))
                                    (wall_clock w (clock_reads w))\<rparr>
         \<and> inference_calls (fst (chat_endpoint w query)) = inference_calls w
         \<and> redis_client (fst (chat_endpoint w query)) = redis_client w
         \<and> database (fst (chat_endpoint w query)) = d"
proof -
  note h = chat_hit [OF assms]
  have "snd (chat_endpoint w query) =
           Inr \<lparr>response = v, source = ''cache (Redis)'',
                latency_seconds = total_seconds (wall_clock w (Suc (clock_reads w)))
                                    (wall_clock w (clock_reads w))\<rparr>"
    using h by simp
  moreover have "inference_calls (fst (chat_endpoint w query)) = inference_calls w"
    using h by simp
  moreover have "redis_client (fst (chat_endpoint w query)) = redis_client w"
    using h by simp
  moreover have "database (fst (chat_endpoint w query)) = d"
    using h by simp
  ultimately show ?thesis by blast
qed

text \<open>The cache holds \<open>"Hello there"\<close> under \<open>"hi"\<close>; user 1 asks \<open>"hi"\<close>.\<close>

theorem c1_cache_hit_witness:
  "redis_client (world_with (Some (redis_with ''hi'' ''Hello there'')) (Some groq_hello) db_ready)
     = Some (redis_with ''hi'' ''Hello there'')
   \<and> get_fault (redis_with ''hi'' ''Hello there'') = None
   \<and> entries (redis_with ''hi'' ''Hello there'') (text query_hi) = Some (''Hello there'', 3600)
   \<and> insert_interaction db_ready (user_id query_hi) (text query_hi) ''Hello there'' ''cache (Redis)''
     = Inr (db_ready\<lparr>interactions := Some
         \<lparr>rows = [\<lparr>row_id = 1, row_user_id = 1, input_text = ''hi'',
                   ai_response = ''Hello there'', row_source = ''cache (Redis)'',
                   timestamp = 0\<rparr>],
          next_id = 2\<rparr>\<rparr>)
   \<and> snd (chat_endpoint
        (world_with (Some (redis_with ''hi'' ''Hello there'')) (Some groq_hello) db_ready) query_hi)
     = Inr \<lparr>response = ''Hello there'', source = ''cache (Redis)'', latency_seconds = 1 / 1000\<rparr>
   \<and> inference_calls (fst (chat_endpoint
        (world_with (Some (redis_with ''hi'' ''Hello there'')) (Some groq_hello) db_ready) query_hi))
     = []"
proof -
  let ?r = "redis_with ''hi'' ''Hello there''"
  let ?w = "world_with (Some ?r) (Some groq_hello) db_ready"
  let ?d = "db_ready\<lparr>interactions := Some
         \<lparr>rows = [\<lparr>row_id = 1, row_user_id = 1, input_text = ''hi'',
                   ai_response = ''Hello there'', row_source = ''cache (Redis)'',
                   timestamp = 0\<rparr>],
          next_id = 2\<rparr>\<rparr>"
  have 1: "redis_client ?w = Some ?r" and 2: "get_fault ?r = None"
    and 3: "entries ?r (text query_hi) = Some (''Hello there'', 3600)"
    and 4: "''Hello there'' \<noteq> ''''"
    by (simp_all add: ex_defs)
  have i: "insert_interaction db_ready (user_id query_hi) (text query_hi) ''Hello there''
             ''cache (Redis)'' = Inr ?d"
    by (simp add: insert_defs ex_defs)
  then have 5: "insert_interaction (database ?w) (user_id query_hi) (text query_hi) ''Hello there''
             ''cache (Redis)'' = Inr ?d"
    by (simp add: world_with_def)
  show ?thesis
    using 1 2 3 i c1_cache_hit [OF 1 2 3 4 5]
    by (simp add: ex_defs total_seconds_def)
qed

text \<open>
  As the specification words it (every key present, source \<open>"cache"\<close>, a response
  always returned) the property fails in three ways. With the key \<open>"hi"\<close> mapped to
  the empty string, the truth test \<open>if cached_response\<close> fails, the provider is
  invoked and the source is \<open>"llm (Groq)"\<close>. With \<open>"hi"\<close> mapped to \<open>"Hello there"\<close>
  the source returned is \<open>"cache (Redis)"\<close>, not \<open>"cache"\<close>. With the same cache and a
  database that is not connected, the insert raises and the answer found in the
  cache is replaced by an HTTP 500.
\<close>

theorem c1_counterexample:
  "entries (redis_with ''hi'' '''') (text query_hi) = Some ('''', 3600)
   \<and> snd (chat_endpoint (world_with (Some (redis_with ''hi'' '''')) (Some groq_hello) db_ready) query_hi)
     = Inr \<lparr>response = ''Hello there'', source = ''llm (Groq)'', latency_seconds = 1 / 1000\<rparr>
   \<and> inference_calls (fst (chat_endpoint
        (world_with (Some (redis_with ''hi'' '''')) (Some groq_hello) db_ready) query_hi))
     = [completion_for query_hi]
   \<and> snd (chat_endpoint
        (world_with (Some (redis_with ''hi'' ''Hello there'')) (Some groq_hello) db_ready) query_hi)
     = Inr \<lparr>response = ''Hello there'', source = ''cache (Redis)'', latency_seconds = 1 / 1000\<rparr>
   \<and> snd (chat_endpoint
        (world_with (Some (redis_with ''hi'' ''Hello there'')) (Some groq_hello) db_ready) query_hi)
     \<noteq> Inr \<lparr>response = ''Hello there'', source = ''cache'', latency_seconds = 1 / 1000\<rparr>
   \<and> snd (chat_endpoint
        (world_with (Some (redis_with ''hi'' ''Hello there'')) (Some groq_hello) db_down) query_hi)
     = Inl (HTTPException 500 (Str (DatabaseError ''not connected'')))"
  by (simp add: chat_defs ex_defs)

subsection \<open>C2: a cache miss\<close>

text \<open>
  C2. For every query whose text is not a key of the cache, when the cache answers
  the lookup and the store, the inference provider is configured and returns a
  completion, and the insert into the log succeeds, \<open>/chat\<close> invokes the provider
  exactly once (with the fixed system prompt and the query text), stores the result
  in the cache under the query text with an expiry of 3600 seconds, and returns a
  response whose source is \<open>"llm (Groq)"\<close>, the string this code uses for inference.
\<close>

theorem c2_cache_miss:
  assumes "redis_client w = Some r" and "get_fault r = None" and "setex_fault r = None"
    and "entries r (text query) = None"
    and "groq_client w = Some g" and "create g (completion_for query) = Inr answer"
    and "insert_interaction (database w) (user_id query) (text query) answer ''llm (Groq)'' = Inr d"
  shows "snd (chat_endpoint w query) =
           Inr \<lparr>response = answer, source = ''llm (Groq)'',
                latency_seconds = total_seconds (wall_clock w (Suc (clock_reads w)))
                                    (wall_clock w (clock_reads w))\<rparr>
         \<and> inference_calls (fst (chat_endpoint w query)) =
             inference_calls w @ [completion_for query]
         \<and> redis_client (fst (chat_endpoint w query)) =
             Some (r\<lparr>entries := (entries r)(text query \<mapsto> (answer, 3600))\<rparr>)
         \<and> database (fst (chat_endpoint w query)) = d"
proof -
  note h = chat_miss [OF assms]
  have "snd (chat_endpoint w query) =
           Inr \<lparr>response = answer, source = ''llm (Groq)'',
                latency_seconds = total_seconds (wall_clock w (Suc (clock_reads w)))
                                    (wall_clock w (clock_reads w))\<rparr>"
    using h by simp
  moreover have "inference_calls (fst (chat_endpoint w query)) =
      inference_calls w @ [completion_for query]"
    using h by simp
  moreover have "redis_client (fst (chat_endpoint w query)) =
      Some (r\<lparr>entries := (entries r)(text query \<mapsto> (answer, 3600))\<rparr>)"
    using h by simp
  moreover have "database (fst (chat_endpoint w query)) = d"
    using h by simp
  ultimately show ?thesis by blast
qed

text \<open>The scenario of the specification: empty cache, user 1 asks \<open>"hi"\<close>.\<close>

theorem c2_cache_miss_witness:
  "redis_client (world_with (Some redis_empty) (Some groq_hello) db_ready) = Some redis_empty
   \<and> entries redis_empty (text query_hi) = None
   \<and> create groq_hello (completion_for query_hi) = Inr ''Hello there''
   \<and> insert_interaction db_ready (user_id query_hi) (text query_hi) ''Hello there'' ''llm (Groq)''
     = Inr (db_ready\<lparr>interactions := Some
         \<lparr>rows = [\<lparr>row_id = 1, row_user_id = 1, input_text = ''hi'',
                   ai_response = ''Hello there'', row_source = ''llm (Groq)'',
                   timestamp = 0\<rparr>],
          next_id = 2\<rparr>\<rparr>)
   \<and> snd (chat_endpoint (world_with (Some redis_empty) (Some groq_hello) db_ready) query_hi)
     = Inr \<lparr>response = ''Hello there'', source = ''llm (Groq)'', latency_seconds = 1 / 1000\<rparr>
   \<and> inference_calls (fst (chat_endpoint
        (world_with (Some redis_empty) (Some groq_hello) db_ready) query_hi))
     = [completion_for query_hi]
   \<and> redis_client (fst (chat_endpoint
        (world_with (Some redis_empty) (Some groq_hello) db_ready) query_hi))
     = Some (redis_with ''hi'' ''Hello there'')"
proof -
  let ?w = "world_with (Some redis_empty) (Some groq_hello) db_ready"
  let ?d = "db_ready\<lparr>interactions := Some
         \<lparr>rows = [\<lparr>row_id = 1, row_user_id = 1, input_text = ''hi'',
                   ai_response = ''Hello there'', row_source = ''llm (Groq)'',
                   timestamp = 0\<rparr>],
          next_id = 2\<rparr>\<rparr>"
  have 1: "redis_client ?w = Some redis_empty" and 2: "get_fault redis_empty = None"
    and 3: "setex_fault redis_empty = None" and 4: "entries redis_empty (text query_hi) = None"
    and 5: "groq_client ?w = Some groq_hello"
    and 6: "create groq_hello (completion_for query_hi) = Inr ''Hello there''"
    by (simp_all add: ex_defs)
  have i: "insert_interaction db_ready (user_id query_hi) (text query_hi) ''Hello there''
             ''llm (Groq)'' = Inr ?d"
    by (simp add: insert_defs ex_defs)
  then have 7: "insert_interaction (database ?w) (user_id query_hi) (text query_hi)
             ''Hello there'' ''llm (Groq)'' = Inr ?d"
    by (simp add: world_with_def)
  show ?thesis
    using 1 4 6 i c2_cache_miss [OF 1 2 3 4 5 6 7]
    by (simp add: ex_defs total_seconds_def)
qed

text \<open>
  As the specification words it (source \<open>"inference"\<close>, for every query that misses)
  the property fails: in the scenario above, with every service answering, the source
  returned is \<open>"llm (Groq)"\<close>, not \<open>"inference"\<close>; and without an inference client the
  same query ends in an HTTP 500 with the provider never invoked.
\<close>

theorem c2_counterexample:
  "entries redis_empty (text query_hi) = None
   \<and> snd (chat_endpoint (world_with (Some redis_empty) (Some groq_hello) db_ready) query_hi)
     = Inr \<lparr>response = ''Hello there'', source = ''llm (Groq)'', latency_seconds = 1 / 1000\<rparr>
   \<and> snd (chat_endpoint (world_with (Some redis_empty) (Some groq_hello) db_ready) query_hi)
     \<noteq> Inr \<lparr>response = ''Hello there'', source = ''inference'', latency_seconds = 1 / 1000\<rparr>
   \<and> snd (chat_endpoint (world_with (Some redis_empty) None db_ready) query_hi)
     = Inl (HTTPException 500 (Str (HTTPException 500 (Text ''LLM service not configured.''))))
   \<and> inference_calls (fst (chat_endpoint (world_with (Some redis_empty) None db_ready) query_hi))
     = []"
  by (simp add: chat_defs ex_defs)

subsection \<open>C3: one log record for every successful request\<close>

text \<open>
  C3. For every successful \<open>/chat\<close> request, on a cache hit as well, exactly one row is
  appended to the table \<open>interactions\<close>: the rows afterwards are the rows before
  followed by one row whose \<open>user_id\<close> and \<open>input_text\<close> are those of the request and
  whose \<open>ai_response\<close> and \<open>source\<close> are those of the response returned (its id is the
  next value of the sequence, its timestamp the database's clock).
\<close>

theorem c3_one_record:
  assumes "chat_endpoint w query = (w', Inr env)"
  shows "\<exists>t. interactions (database w) = Some t
           \<and> interactions (database w') = Some
               \<lparr>rows = rows t @
                  [\<lparr>row_id = next_id t, row_user_id = user_id query, input_text = text query,
                    ai_response = response env, row_source = source env,
                    timestamp = now (database w)\<rparr>],
                next_id = Suc (next_id t)\<rparr>"
proof -
  let ?w0 = "w\<lparr>clock_reads := Suc (clock_reads w)\<rparr>"
  from chat_success_steps [OF assms] obtain w1 sr d
    where r: "resolve ?w0 query = (w1, Inr sr)"
      and d: "insert_interaction (database w1) (user_id query) (text query) (snd sr) (fst sr)
                = Inr d"
      and w': "w' = w1\<lparr>database := d, clock_reads := Suc (clock_reads w1)\<rparr>"
      and env: "response env = snd sr" "source env = fst sr"
    by blast
  have db: "database w1 = database w"
    using resolve_database [of ?w0 query] r by simp
  have len: "length (fst sr) \<le> 20"
    using resolve_source [OF r] by auto
  from insert_row [OF d len] db obtain t where t: "interactions (database w) = Some t"
    and d': "d = (database w)\<lparr>interactions := Some
                \<lparr>rows = rows t @
                   [\<lparr>row_id = next_id t, row_user_id = user_id query, input_text = text query,
                     ai_response = snd sr, row_source = fst sr,
                     timestamp = now (database w)\<rparr>],
                 next_id = Suc (next_id t)\<rparr>\<rparr>"
    by auto
  show ?thesis
    using t d' w' env by simp
qed

text \<open>The cache hit of C1: the log, empty before, holds the one row of the request.\<close>

theorem c3_one_record_witness:
  "snd (chat_endpoint
        (world_with (Some (redis_with ''hi'' ''Hello there'')) (Some groq_hello) db_ready) query_hi)
     = Inr \<lparr>response = ''Hello there'', source = ''cache (Redis)'', latency_seconds = 1 / 1000\<rparr>
   \<and> interactions (database
        (world_with (Some (redis_with ''hi'' ''Hello there'')) (Some groq_hello) db_ready))
     = Some \<lparr>rows = [], next_id = 1\<rparr>
   \<and> interactions (database (fst (chat_endpoint
        (world_with (Some (redis_with ''hi'' ''Hello there'')) (Some groq_hello) db_ready) query_hi)))
     = Some \<lparr>rows = [\<lparr>row_id = 1, row_user_id = 1, input_text = ''hi'',
                       ai_response = ''Hello there'', row_source = ''cache (Redis)'',
                       timestamp = 0\<rparr>],
             next_id = 2\<rparr>"
proof -
  let ?w = "world_with (Some (redis_with ''hi'' ''Hello there'')) (Some groq_hello) db_ready"
  let ?env = "\<lparr>response = ''Hello there'', source = ''cache (Redis)'', latency_seconds = 1 / 1000\<rparr>"
  have s: "snd (chat_endpoint ?w query_hi) = Inr ?env"
    by (simp add: chat_defs ex_defs)
  then have h: "chat_endpoint ?w query_hi = (fst (chat_endpoint ?w query_hi), Inr ?env)"
    by (metis prod.collapse)
  have d: "interactions (database ?w) = Some \<lparr>rows = [], next_id = 1\<rparr>"
    by (simp add: ex_defs)
  show ?thesis
    using s d c3_one_record [OF h] by (simp add: ex_defs)
qed

subsection \<open>C4: failures of the cache\<close>

text \<open>
  C4. The claim: a failure of the cache, at the lookup or at the write-through, is
  never surfaced; a failing lookup counts as a miss, a failing store is skipped, and
  the request completes through inference and the log. The code sets out to do this
  (\<open>main.py\<close>, lines 33 to 39: "Initialize Redis with error handling", the client
  set to \<open>None\<close>, and the two tests \<open>if redis_client\<close>) and misses it: constructing the
  client does not connect, so an unreachable server leaves \<open>redis_client\<close> set, and
  \<open>get\<close> and \<open>setex\<close> are called with no handler of their own inside the \<open>try\<close> block.
  With the provider and the database answering and user 1 asking \<open>"hi"\<close>: a cache that
  refuses connections makes \<open>get\<close> raise and \<open>/chat\<close> return an HTTP 500, with no
  inference and no row; a cache that answers reads and refuses writes makes \<open>setex\<close>
  raise after the inference, and \<open>/chat\<close> returns an HTTP 500 with no row, where the
  claim has the response \<open>"Hello there"\<close> returned and logged in both cases.
\<close>

theorem c4_cache_fault_surfaced:
  "redis_client (world_with (Some redis_down) (Some groq_hello) db_ready) = Some redis_down
   \<and> redis_get redis_down (text query_hi) = Inl (RedisError ''Connection refused'')
   \<and> chat_endpoint (world_with (Some redis_down) (Some groq_hello) db_ready) query_hi
     = ((world_with (Some redis_down) (Some groq_hello) db_ready)\<lparr>clock_reads := 1\<rparr>,
        Inl (HTTPException 500 (Str (RedisError ''Connection refused''))))
   \<and> redis_get redis_read_only (text query_hi) = Inr None
   \<and> redis_setex redis_read_only (text query_hi) 3600 ''Hello there''
     = Inl (RedisError ''READONLY'')
   \<and> snd (chat_endpoint (world_with (Some redis_read_only) (Some groq_hello) db_ready) query_hi)
     = Inl (HTTPException 500 (Str (RedisError ''READONLY'')))
   \<and> inference_calls (fst (chat_endpoint
        (world_with (Some redis_read_only) (Some groq_hello) db_ready) query_hi))
     = [completion_for query_hi]
   \<and> database (fst (chat_endpoint
        (world_with (Some redis_read_only) (Some groq_hello) db_ready) query_hi))
     = db_ready"
  by (simp add: chat_defs ex_defs)

subsection \<open>C5: a miss without an inference client\<close>

text \<open>
  C5. For every query that misses the cache (no cache client, no entry, or an empty
  entry) while the inference client is not configured, \<open>/chat\<close> returns an HTTP 500,
  whose detail is that of the \<open>HTTPException\<close> "LLM service not configured.", and
  no row is created: the database is unchanged. The provider is not invoked.
\<close>

theorem c5_unconfigured:
  assumes "groq_client w = None" and "cache_layer w query = Inr (''unknown'', '''')"
  shows "snd (chat_endpoint w query) =
           Inl (HTTPException 500 (Str (HTTPException 500 (Text ''LLM service not configured.''))))
         \<and> database (fst (chat_endpoint w query)) = database w
         \<and> inference_calls (fst (chat_endpoint w query)) = inference_calls w"
proof -
  let ?w0 = "w\<lparr>clock_reads := Suc (clock_reads w)\<rparr>"
  have "cache_layer ?w0 query = Inr (''unknown'', '''')"
    using assms(2) by (simp add: cache_layer_def)
  then have "resolve ?w0 query =
      (?w0, Inl (HTTPException 500 (Text ''LLM service not configured.'')))"
    using assms(1) by (simp add: resolve_def inference_layer_def)
  then have "chat_endpoint w query =
      (?w0, Inl (HTTPException 500 (Str (HTTPException 500 (Text ''LLM service not configured.'')))))"
    by (simp add: chat_endpoint_def datetime_now_def)
  then show ?thesis by simp
qed

theorem c5_unconfigured_witness:
  "groq_client (world_with (Some redis_empty) None db_ready) = None
   \<and> cache_layer (world_with (Some redis_empty) None db_ready) query_hi = Inr (''unknown'', '''')
   \<and> snd (chat_endpoint (world_with (Some redis_empty) None db_ready) query_hi)
     = Inl (HTTPException 500 (Str (HTTPException 500 (Text ''LLM service not configured.''))))
   \<and> database (fst (chat_endpoint (world_with (Some redis_empty) None db_ready) query_hi))
     = db_ready"
  using c5_unconfigured [of "world_with (Some redis_empty) None db_ready" query_hi]
  by (simp add: ex_defs cache_layer_def redis_get_def)

subsection \<open>C6: a failing insert\<close>

text \<open>
  C6. For every request in which steps 1 and 2 obtained a response text, from the
  cache or from inference, and the insert into the log fails, \<open>/chat\<close> returns an
  HTTP 500 carrying the exception of the insert instead of the answer, and the log
  is unchanged: an answer is never returned without its row.
\<close>

theorem c6_log_failure:
  assumes "resolve w query = (w1, Inr sr)"
    and "insert_interaction (database w) (user_id query) (text query) (snd sr) (fst sr) = Inl e"
  shows "snd (chat_endpoint w query) = Inl (HTTPException 500 (Str e))
         \<and> database (fst (chat_endpoint w query)) = database w"
proof -
  let ?w0 = "w\<lparr>clock_reads := Suc (clock_reads w)\<rparr>"
  have r: "resolve ?w0 query = (w1\<lparr>clock_reads := Suc (clock_reads w)\<rparr>, Inr sr)"
    using assms(1) by (simp add: resolve_clock)
  have d: "database w1 = database w"
    using resolve_database [of w query] assms(1) by simp
  show ?thesis
    using r d assms(2)
    by (simp add: chat_endpoint_def datetime_now_def persistence_layer_def)
qed

text \<open>A cache hit, with a database that has no table \<open>interactions\<close>.\<close>

theorem c6_log_failure_witness:
  "resolve (world_with (Some (redis_with ''hi'' ''Hello there'')) (Some groq_hello) db_no_table) query_hi
     = (world_with (Some (redis_with ''hi'' ''Hello there'')) (Some groq_hello) db_no_table,
        Inr (''cache (Redis)'', ''Hello there''))
   \<and> insert_interaction db_no_table 1 ''hi'' ''Hello there'' ''cache (Redis)''
     = Inl (DatabaseError ''relation interactions does not exist'')
   \<and> snd (chat_endpoint
        (world_with (Some (redis_with ''hi'' ''Hello there'')) (Some groq_hello) db_no_table) query_hi)
     = Inl (HTTPException 500 (Str (DatabaseError ''relation interactions does not exist'')))"
proof -
  let ?w = "world_with (Some (redis_with ''hi'' ''Hello there'')) (Some groq_hello) db_no_table"
  have r: "resolve ?w query_hi = (?w, Inr (''cache (Redis)'', ''Hello there''))"
    by (simp add: resolve_def cache_layer_def inference_layer_def redis_get_def ex_defs)
  have i: "insert_interaction (database ?w) (user_id query_hi) (text query_hi)
             (snd (''cache (Redis)'', ''Hello there'')) (fst (''cache (Redis)'', ''Hello there''))
           = Inl (DatabaseError ''relation interactions does not exist'')"
    by (simp add: insert_interaction_def execute_guard_def ex_defs)
  show ?thesis
    using r i c6_log_failure [OF r i] by (simp add: ex_defs)
qed

subsection \<open>C7: the analytics listing\<close>

text \<open>
  C7. For every state of the table \<open>interactions\<close>, on a database that answers,
  \<open>/analytics\<close> returns at most 10 rows, ordered by descending id (newest first):
  they are rows of the table, as many as the table has up to 10, and no row left out
  has a larger id than a row returned.
\<close>

theorem c7_analytics:
  assumes "is_connected (database w)" and "reachable (database w)"
    and "interactions (database w) = Some t"
  shows "\<exists>records. get_analytics w = Inr records
           \<and> length records \<le> 10
           \<and> sorted_wrt (\<lambda>a b. row_id b \<le> row_id a) records
           \<and> set records \<subseteq> set (rows t)
           \<and> length records = min 10 (length (rows t))
           \<and> (\<forall>x \<in> set records. \<forall>y \<in> set (rows t).
                 y \<notin> set records \<longrightarrow> row_id y \<le> row_id x)"
proof -
  let ?xs = "rev (sort_key row_id (rows t))"
  let ?records = "take 10 ?xs"
  have g: "get_analytics w = Inr ?records"
    using assms by (simp add: get_analytics_def select_last_10_def execute_guard_def)
  have s: "sorted_wrt (\<lambda>a b. row_id b \<le> row_id a) ?xs"
    by (rule desc_sorted)
  have 1: "length ?records \<le> 10"
    by simp
  have 2: "sorted_wrt (\<lambda>a b. row_id b \<le> row_id a) ?records"
    using s by (rule sorted_wrt_take)
  have 3: "set ?records \<subseteq> set (rows t)"
    using set_take_subset [of 10 ?xs] by simp
  have 4: "length ?records = min 10 (length (rows t))"
    by (simp add: min.commute)
  have 5: "\<forall>x \<in> set ?records. \<forall>y \<in> set (rows t).
             y \<notin> set ?records \<longrightarrow> row_id y \<le> row_id x"
  proof (intro ballI impI)
    fix x y
    assume "x \<in> set ?records" and "y \<in> set (rows t)" and "y \<notin> set ?records"
    then show "row_id y \<le> row_id x"
      using take_newest [OF s, of x 10 y] by simp
  qed
  show ?thesis
    using g 1 2 3 4 5 by blast
qed

text \<open>A table of twelve rows, ids 1 to 12: the listing is the rows 12 down to 3.\<close>

theorem c7_analytics_witness:
  "is_connected (database (world_with None None db_twelve))
   \<and> reachable (database (world_with None None db_twelve))
   \<and> get_analytics (world_with None None db_twelve)
     = Inr (map row_numbered [12, 11, 10, 9, 8, 7, 6, 5, 4, 3])
   \<and> (\<exists>records. get_analytics (world_with None None db_twelve) = Inr records
        \<and> length records \<le> 10
        \<and> sorted_wrt (\<lambda>a b. row_id b \<le> row_id a) records)"
proof -
  let ?w = "world_with None None db_twelve"
  have c: "is_connected (database ?w)" and r: "reachable (database ?w)"
    and t: "interactions (database ?w)
      = Some \<lparr>rows = map row_numbered [1, 2, 3, 4, 5, 6, 7, 8, 9, 10, 11, 12], next_id = 13\<rparr>"
    by (simp_all add: world_with_def db_twelve_def)
  have h: "get_analytics ?w = Inr (map row_numbered [12, 11, 10, 9, 8, 7, 6, 5, 4, 3])"
    by (simp add: get_analytics_def select_last_10_def execute_guard_def world_with_def
        db_twelve_def row_numbered_def)
  from c7_analytics [OF c r t]
  have "\<exists>records. get_analytics ?w = Inr records
        \<and> length records \<le> 10
        \<and> sorted_wrt (\<lambda>a b. row_id b \<le> row_id a) records"
    by blast
  then show ?thesis
    using c r h by blast
qed

subsection \<open>C8: the schema at start\<close>

text \<open>
  C8. At start, when the database accepts the connection, the table \<open>interactions\<close> is
  ensured to exist: created empty when absent, left unchanged when present, so that
  it exists when \<open>startup\<close> has completed, and running \<open>startup\<close> again changes
  nothing. When the database does not answer, \<open>startup\<close> still completes (the
  exception is logged, not raised) and leaves the state as it was.
\<close>

theorem c8_startup:
  "(reachable (database w) \<longrightarrow>
      interactions (database (startup w)) =
        (case interactions (database w) of
           None \<Rightarrow> Some \<lparr>rows = [], next_id = 1\<rparr>
         | Some t \<Rightarrow> Some t)
      \<and> interactions (database (startup w)) \<noteq> None
      \<and> is_connected (database (startup w))
      \<and> startup (startup w) = startup w)
   \<and> (\<not> reachable (database w) \<longrightarrow> startup w = w)"
proof (intro conjI impI)
  assume r: "reachable (database w)"
  show "interactions (database (startup w)) =
        (case interactions (database w) of
           None \<Rightarrow> Some \<lparr>rows = [], next_id = 1\<rparr>
         | Some t \<Rightarrow> Some t)"
    using r
    by (simp add: startup_def connect_def create_table_if_not_exists_def execute_guard_def
        split: option.splits)
  then show "interactions (database (startup w)) \<noteq> None"
    by (simp split: option.splits)
  show "is_connected (database (startup w))"
    using r
    by (simp add: startup_def connect_def create_table_if_not_exists_def execute_guard_def
        split: option.splits)
  show "startup (startup w) = startup w"
    using r
    by (simp add: startup_def connect_def create_table_if_not_exists_def execute_guard_def
        split: option.splits)
next
  assume "\<not> reachable (database w)"
  then show "startup w = w"
    by (simp add: startup_def connect_def create_table_if_not_exists_def execute_guard_def)
qed

text \<open>A database that answers, not yet connected and without the table; and one that
  does not answer.\<close>

theorem c8_startup_witness:
  "reachable (database (world_with None None db_fresh))
   \<and> interactions (database (world_with None None db_fresh)) = None
   \<and> interactions (database (startup (world_with None None db_fresh)))
     = Some \<lparr>rows = [], next_id = 1\<rparr>
   \<and> is_connected (database (startup (world_with None None db_fresh)))
   \<and> \<not> reachable (database (world_with None None db_down))
   \<and> startup (world_with None None db_down) = world_with None None db_down"
  using c8_startup [of "world_with None None db_fresh"]
    c8_startup [of "world_with None None db_down"]
  by (simp add: ex_defs)

text \<open>
  As the specification words it (after startup the table exists) the property fails:
  with a database that refuses the connection and has no table, \<open>startup\<close> completes
  and the table still does not exist.
\<close>

theorem c8_counterexample:
  "interactions (database (world_with None None db_down)) = None
   \<and> connect (database (world_with None None db_down)) = Inl (DatabaseError ''connection refused'')
   \<and> interactions (database (startup (world_with None None db_down))) = None
   \<and> \<not> is_connected (database (startup (world_with None None db_down)))"
  by (simp add: startup_def connect_def ex_defs)

subsection \<open>C9: an empty cached value\<close>

text \<open>
  C9. If the cache holds the query text mapped to the empty string, \<open>/chat\<close> treats it
  as a miss: step 1 leaves the response text empty. With an inference client
  configured the provider is invoked, once, and every response returned has the
  inference source \<open>"llm (Groq)"\<close>, not the cache source, and the provider's
  completion as its text. With no inference client the request ends in the HTTP 500
  of "LLM service not configured." and the provider is not invoked.
\<close>

theorem c9_empty_cached_value:
  assumes "redis_client w = Some r" and "get_fault r = None"
    and "entries r (text query) = Some ('''', ttl)"
  shows "cache_layer w query = Inr (''unknown'', '''')
         \<and> (\<forall>g. groq_client w = Some g \<longrightarrow>
               inference_calls (fst (chat_endpoint w query)) =
                 inference_calls w @ [completion_for query]
               \<and> (\<forall>env. snd (chat_endpoint w query) = Inr env \<longrightarrow>
                     source env = ''llm (Groq)''
                     \<and> create g (completion_for query) = Inr (response env)))
         \<and> (groq_client w = None \<longrightarrow>
               snd (chat_endpoint w query) =
                 Inl (HTTPException 500
                   (Str (HTTPException 500 (Text ''LLM service not configured.''))))
               \<and> inference_calls (fst (chat_endpoint w query)) = inference_calls w)"
proof (intro conjI allI impI)
  show "cache_layer w query = Inr (''unknown'', '''')"
    using assms by (simp add: cache_layer_def redis_get_def)
next
  fix g
  assume "groq_client w = Some g"
  then show "inference_calls (fst (chat_endpoint w query)) =
      inference_calls w @ [completion_for query]"
    using assms
    by (simp add: chat_defs0 Let_def split: option.splits sum.splits)
next
  fix g env
  assume "groq_client w = Some g" and "snd (chat_endpoint w query) = Inr env"
  then have b: "source env = ''llm (Groq)'' \<and> create g (completion_for query) = Inr (response env)"
    using assms
    by (auto simp: chat_defs0 Let_def split: option.splits sum.splits)
  show "source env = ''llm (Groq)''"
    using b by simp
  show "create g (completion_for query) = Inr (response env)"
    using b by simp
next
  assume n: "groq_client w = None"
  then have c: "chat_endpoint w query =
      (w\<lparr>clock_reads := Suc (clock_reads w)\<rparr>,
       Inl (HTTPException 500 (Str (HTTPException 500 (Text ''LLM service not configured.'')))))"
    using assms by (simp add: chat_defs0)
  show "snd (chat_endpoint w query) =
      Inl (HTTPException 500 (Str (HTTPException 500 (Text ''LLM service not configured.''))))"
    using c by simp
  show "inference_calls (fst (chat_endpoint w query)) = inference_calls w"
    using c by simp
qed

text \<open>
  The cache holds the empty string under \<open>"hi"\<close>; user 1 asks \<open>"hi"\<close>, once with the
  provider configured and once without.
\<close>

theorem c9_empty_cached_value_witness:
  "entries (redis_with ''hi'' '''') (text query_hi) = Some ('''', 3600)
   \<and> cache_layer (world_with (Some (redis_with ''hi'' '''')) (Some groq_hello) db_ready) query_hi
     = Inr (''unknown'', '''')
   \<and> inference_calls (fst (chat_endpoint
        (world_with (Some (redis_with ''hi'' '''')) (Some groq_hello) db_ready) query_hi))
     = [completion_for query_hi]
   \<and> snd (chat_endpoint
        (world_with (Some (redis_with ''hi'' '''')) (Some groq_hello) db_ready) query_hi)
     = Inr \<lparr>response = ''Hello there'', source = ''llm (Groq)'', latency_seconds = 1 / 1000\<rparr>
   \<and> snd (chat_endpoint
        (world_with (Some (redis_with ''hi'' '''')) None db_ready) query_hi)
     = Inl (HTTPException 500 (Str (HTTPException 500 (Text ''LLM service not configured.''))))"
proof -
  let ?w = "world_with (Some (redis_with ''hi'' '''')) (Some groq_hello) db_ready"
  let ?n = "world_with (Some (redis_with ''hi'' '''')) None db_ready"
  have s: "snd (chat_endpoint ?w query_hi)
     = Inr \<lparr>response = ''Hello there'', source = ''llm (Groq)'', latency_seconds = 1 / 1000\<rparr>"
    by (simp add: chat_defs ex_defs)
  show ?thesis
    using s c9_empty_cached_value [of ?w "redis_with ''hi'' ''''" query_hi 3600]
      c9_empty_cached_value [of ?n "redis_with ''hi'' ''''" query_hi 3600]
    by (simp add: ex_defs)
qed

text \<open>
  As the claim words it (the inference provider is invoked and an inference response
  returned, whenever the key maps to the empty string) the property fails: with the
  empty string cached under \<open>"hi"\<close> and no inference client, the provider is not
  invoked and no response is returned.
\<close>

theorem c9_counterexample:
  "redis_client (world_with (Some (redis_with ''hi'' '''')) None db_ready)
     = Some (redis_with ''hi'' '''')
   \<and> entries (redis_with ''hi'' '''') (text query_hi) = Some ('''', 3600)
   \<and> inference_calls (fst (chat_endpoint
        (world_with (Some (redis_with ''hi'' '''')) None db_ready) query_hi))
     = []
   \<and> snd (chat_endpoint (world_with (Some (redis_with ''hi'' '''')) None db_ready) query_hi)
     = Inl (HTTPException 500 (Str (HTTPException 500 (Text ''LLM service not configured.''))))"
  by (simp add: chat_defs ex_defs)

subsection \<open>C10: the cache key ignores the user\<close>




end
